theory Spec2Isabelle
  imports Complex_Main "HOL-Library.AList"
begin

section \<open>Host event handlers of the trivia session server\<close>

text \<open>
  A shallow embedding of \<^verbatim>\<open>src/server/session/handle-host-event.ts\<close>. Each handler
  becomes a function from the server's state to the server's state. Everything a handler
  does to the outside (messages sent, timeouts restarted, acknowledgment callbacks) is
  appended, in the order of the calls, to a log kept in the state.
\<close>

subsection \<open>Data of the shared package\<close>

text \<open>
  The members of \<^verbatim>\<open>SessionState\<close> are the ones the handlers and the host layout
  switch over.
\<close>

datatype SessionState =
    Lobby
  | ClueSelection
  | ReadingCategoryNames
  | ReadingClueSelection
  | ReadingClue
  | ClueTossup
  | ClueResponse
  | WaitingForClueDecision
  | ReadingClueDecision
  | WagerResponse
  | GameOver

text \<open>
  The four members of \<^verbatim>\<open>SessionTimeoutType\<close> that the handlers name. Two of them
  share their name with a session state, hence the suffix.
\<close>

datatype SessionTimeoutType =
    Announcement_Timeout
  | ReadingCategoryName_Timeout
  | ReadingClueSelection_Timeout
  | ReadingClue_Timeout

text \<open>
  \<^verbatim>\<open>SessionAnnouncement\<close>, with the members that key the table of announcement
  messages in \<^verbatim>\<open>src/client/src/misc/ui-constants.ts\<close>.
\<close>

datatype SessionAnnouncement =
    StartGame
  | ClueBonusWager
  | ClueBonusAllWager
  | ClueBonusAllPlay
  | FinalClue
  | StartRound
  | StartFinalRound
  | GameOver_Announcement

text \<open>
  \<^verbatim>\<open>TriviaGameSettingsPreset\<close>: the handlers name the member \<^verbatim>\<open>Custom\<close> only;
  \<open>Preset n\<close> stands for the other members of the enum. \<^verbatim>\<open>VoiceType\<close> and the
  content of a trivia round are opaque to the handlers.
\<close>

datatype TriviaGameSettingsPreset = Custom | Preset nat

datatype VoiceType = VoiceType nat

datatype TriviaRound = TriviaRound nat

subsection \<open>Sessions and the state of the server\<close>

text \<open>
  The fields of a session that the handlers read or write. \<open>hosts\<close> is the object
  mapping connection identifiers to client identifiers, kept as an association list in
  insertion order, so that \<^verbatim>\<open>Object.keys(session.hosts)\<close> is the list of its first
  components. \<open>currentAnnouncement\<close> is \<open>None\<close> when no announcement is set.
\<close>

record Session =
  name :: string
  creatorSocketID :: string
  state :: SessionState
  hosts :: "(string \<times> string) list"
  triviaGameSettingsPreset :: TriviaGameSettingsPreset
  voiceType :: VoiceType
  currentVoiceLine :: string
  currentAnnouncement :: "SessionAnnouncement option"
  triviaRound :: "TriviaRound option"

text \<open>
  Where a message goes. \<open>ToConnections ids ex\<close> is
  \<^verbatim>\<open>io.to(ids).except(ex)\<close> with \<open>ids\<close> a list of connection identifiers (every
  connection is the only member of the room named by its identifier);
  \<open>ToSocket c\<close> is \<^verbatim>\<open>socket.emit\<close> on connection \<open>c\<close>;
  \<open>RoomExcept r c\<close> is \<^verbatim>\<open>socket.broadcast.to(r)\<close> on connection \<open>c\<close>: every
  connection in room \<open>r\<close> but \<open>c\<close> itself.
\<close>

datatype target =
    ToConnections "string list" "string list"
  | ToSocket string
  | RoomExcept string string

datatype message =
    UpdateGameSettingsPreset TriviaGameSettingsPreset
  | UpdateVoiceType VoiceType bool
  | Message string bool
  | CancelGame

text \<open>
  One entry of the log. \<open>RestartTimeout\<close>, \<open>StateUpdate\<close>, \<open>TriviaRoundUpdate\<close>,
  \<open>LeaderboardUpdate\<close> and \<open>CancelTimeouts\<close> record calls of helpers of
  \<^verbatim>\<open>session-utils\<close>; \<open>Callback b\<close> is the acknowledgment callback called with \<open>b\<close>.
\<close>

datatype effect =
    Emit target message
  | RestartTimeout string SessionTimeoutType real
  | StateUpdate string SessionState
  | TriviaRoundUpdate string "TriviaRound option"
  | LeaderboardUpdate string
  | CancelTimeouts string
  | Callback bool

text \<open>
  The state of the server: the registry of live sessions by name, the session name that
  each connection carries (\<^verbatim>\<open>(socket as any).sessionName\<close>; no entry when it is
  undefined), and the log. A connection is identified by its \<^verbatim>\<open>socket.id\<close>.
\<close>

record world =
  sessions :: "(string \<times> Session) list"
  sessionNameOf :: "(string \<times> string) list"
  effects :: "effect list"

definition keys :: "('k \<times> 'v) list \<Rightarrow> 'k list" where
  "keys al = map fst al"

text \<open>
  Who receives a message sent to a target, given the connections \<open>members r\<close> that have
  joined room \<open>r\<close>.
\<close>

fun receives :: "(string \<Rightarrow> string set) \<Rightarrow> target \<Rightarrow> string \<Rightarrow> bool" where
  "receives members (ToConnections ids ex) c = (c \<in> set ids \<and> c \<notin> set ex)"
| "receives members (ToSocket s) c = (c = s)"
| "receives members (RoomExcept r s) c = (c \<in> members r \<and> c \<noteq> s)"

subsection \<open>The helpers of the session module\<close>

text \<open>
  Modelled from the spec: \<^verbatim>\<open>getSession\<close> of \<^verbatim>\<open>session-utils\<close>, which is not among
  the sources. ``\<^verbatim>\<open>get(name) -> Session | absent\<close>: pure lookup, never creates as a side
  effect.''
\<close>

definition getSession :: "world \<Rightarrow> string \<Rightarrow> Session option" where
  "getSession w sessionName = map_of (sessions w) sessionName"

text \<open>
  The handlers change a session through the reference that \<^verbatim>\<open>getSession\<close> returned;
  in the model the changed session is stored back under the name it was looked up by.
\<close>

definition putSession :: "string \<Rightarrow> Session \<Rightarrow> world \<Rightarrow> world" where
  "putSession sessionName session w =
     w\<lparr>sessions := AList.update sessionName session (sessions w)\<rparr>"

text \<open>
  Modelled from the spec: the constructor of \<^verbatim>\<open>Session\<close>, which is not among the
  sources. A new session is in \<^verbatim>\<open>Lobby\<close>, its creator is its first host (``the creator
  plus any number of spectating hosts''), and nothing is being spoken. The first
  preset and voice stand for the defaults, which the spec does not name.
\<close>

definition newSession :: "string \<Rightarrow> string \<Rightarrow> string \<Rightarrow> Session" where
  "newSession sessionName socketID clientID =
     \<lparr>name = sessionName, creatorSocketID = socketID, state = Lobby,
      hosts = [(socketID, clientID)], triviaGameSettingsPreset = Preset 0,
      voiceType = VoiceType 0, currentVoiceLine = [], currentAnnouncement = None,
      triviaRound = None\<rparr>"

text \<open>
  Modelled from the spec: \<^verbatim>\<open>createSession\<close> of \<^verbatim>\<open>session-utils\<close>, which is not
  among the sources. ``\<^verbatim>\<open>create(name, creatorConnection, creatorClientID)\<close>: fails if
  \<^verbatim>\<open>name\<close> already present; otherwise constructs a new Session in \<^verbatim>\<open>Lobby\<close> state
  and stores it.'' The failure is \<open>Inl\<close> with its message.
\<close>

definition createSession :: "string \<Rightarrow> string \<Rightarrow> string \<Rightarrow> world \<Rightarrow> string + world" where
  "createSession sessionName socketID clientID w =
     (case getSession w sessionName of
        Some existing \<Rightarrow> Inl ''session already exists''
      | None \<Rightarrow> Inr (putSession sessionName (newSession sessionName socketID clientID) w))"

text \<open>
  Modelled from the spec: \<^verbatim>\<open>deleteSession\<close> of \<^verbatim>\<open>session-utils\<close>, which is not
  among the sources. ``\<^verbatim>\<open>delete(name)\<close>: removes the session and cancels every timer
  owned by it; idempotent.''
\<close>

definition deleteSession :: "string \<Rightarrow> world \<Rightarrow> world" where
  "deleteSession sessionName w =
     w\<lparr>sessions := AList.delete sessionName (sessions w),
       effects := effects w @ [CancelTimeouts sessionName]\<rparr>"

text \<open>
  Modelled from the spec: \<^verbatim>\<open>joinSessionAsHost\<close> of \<^verbatim>\<open>session-utils\<close>, which is not
  among the sources. It is the one call of \<^verbatim>\<open>handleConnect\<close> that is given the socket,
  and \<^verbatim>\<open>handleHostEvent\<close> reads \<^verbatim>\<open>socket.sessionName\<close> back for every later event:
  the call records the session name on the connection (``the connection object carries
  a mutable current session name field set by side effect elsewhere'', ``updated only
  through the join/leave operations''). What it sends to the joining host is left out.
\<close>

definition joinSessionAsHost :: "string \<Rightarrow> string \<Rightarrow> world \<Rightarrow> world" where
  "joinSessionAsHost socket_id sessionName w =
     w\<lparr>sessionNameOf := AList.update socket_id sessionName (sessionNameOf w)\<rparr>"

text \<open>
  Modelled from the spec: the method \<^verbatim>\<open>connectHost\<close> of \<^verbatim>\<open>Session\<close>, which is not
  among the sources. ``Joining as host: any connection may attach to an existing session
  as a host, recorded in \<^verbatim>\<open>hosts\<close>'', the mapping from connection to client.
\<close>

definition connectHost :: "string \<Rightarrow> string \<Rightarrow> Session \<Rightarrow> Session" where
  "connectHost socketID clientID session =
     session\<lparr>hosts := AList.update socketID clientID (hosts session)\<rparr>"

text \<open>
  Modelled from the spec: the method \<^verbatim>\<open>disconnectHost\<close> of \<^verbatim>\<open>Session\<close>, which is
  not among the sources. ``Leaving: removes the connection from \<^verbatim>\<open>hosts\<close>.''
\<close>

definition disconnectHost :: "string \<Rightarrow> Session \<Rightarrow> Session" where
  "disconnectHost socketID session =
     session\<lparr>hosts := AList.delete socketID (hosts session)\<rparr>"

definition emit :: "target \<Rightarrow> message \<Rightarrow> world \<Rightarrow> world" where
  "emit t m w = w\<lparr>effects := effects w @ [Emit t m]\<rparr>"

definition callback :: "bool \<Rightarrow> world \<Rightarrow> world" where
  "callback b w = w\<lparr>effects := effects w @ [Callback b]\<rparr>"

text \<open>
  Modelled from the spec: \<^verbatim>\<open>restartTimeout\<close> of \<^verbatim>\<open>session-utils\<close>, which is not
  among the sources. The reschedule ``is performed via the same replace-on-schedule
  path''; the model records which timeout of which session is restarted, and with which
  duration.
\<close>

definition restartTimeout :: "string \<Rightarrow> SessionTimeoutType \<Rightarrow> real \<Rightarrow> world \<Rightarrow> world" where
  "restartTimeout sessionName kind durationMs w =
     w\<lparr>effects := effects w @ [RestartTimeout sessionName kind durationMs]\<rparr>"

text \<open>
  Modelled from the spec: \<^verbatim>\<open>emitServerError\<close> of \<^verbatim>\<open>session-utils\<close>, which is not
  among the sources. ``A message is sent to the originating connection with an error
  flag.''
\<close>

definition emitServerError :: "string \<Rightarrow> string \<Rightarrow> world \<Rightarrow> world" where
  "emitServerError e socket_id w = emit (ToSocket socket_id) (Message e True) w"

text \<open>
  Modelled from the spec: \<^verbatim>\<open>emitStateUpdate\<close> of \<^verbatim>\<open>session-utils\<close>, which is not
  among the sources. It produces the outbound event \<^verbatim>\<open>StateUpdate\<close> (``broadcasts the
  new state''), recorded with the state the named session is in when it is called.
\<close>

definition emitStateUpdate :: "string \<Rightarrow> world \<Rightarrow> world" where
  "emitStateUpdate sessionName w =
     (case getSession w sessionName of
        None \<Rightarrow> w
      | Some session \<Rightarrow> w\<lparr>effects := effects w @ [StateUpdate sessionName (state session)]\<rparr>)"

text \<open>
  Modelled from the spec: \<^verbatim>\<open>emitTriviaRoundUpdate\<close> of \<^verbatim>\<open>session-utils\<close>, which is
  not among the sources. It produces the outbound event \<^verbatim>\<open>TriviaRoundUpdate\<close> (``the
  generated round is broadcast''), recorded with the round the named session holds when
  it is called.
\<close>

definition emitTriviaRoundUpdate :: "string \<Rightarrow> world \<Rightarrow> world" where
  "emitTriviaRoundUpdate sessionName w =
     (case getSession w sessionName of
        None \<Rightarrow> w
      | Some session \<Rightarrow>
          w\<lparr>effects := effects w @ [TriviaRoundUpdate sessionName (triviaRound session)]\<rparr>)"

text \<open>
  Modelled from the spec: \<^verbatim>\<open>emitLeaderboardUpdate\<close> of \<^verbatim>\<open>session-utils\<close>, which is
  not among the sources. It produces the outbound event \<^verbatim>\<open>LeaderboardUpdate\<close> (``a
  leaderboard snapshot''), recorded with the connection it is called on.
\<close>

definition emitLeaderboardUpdate :: "string \<Rightarrow> world \<Rightarrow> world" where
  "emitLeaderboardUpdate socket_id w = w\<lparr>effects := effects w @ [LeaderboardUpdate socket_id]\<rparr>"

subsection \<open>The handlers\<close>

text \<open>
  \<^verbatim>\<open>handleConnect\<close>. The words that \<^verbatim>\<open>generateRandomWord\<close> returns, one per turn of
  the loop, are the list \<open>draws\<close>. The loop takes a word and goes round again while a
  session of that name exists. \<open>None\<close>: the loop has not ended when the list is used up.
\<close>

fun pickSessionName :: "world \<Rightarrow> string list \<Rightarrow> string option" where
  "pickSessionName w [] = None"
| "pickSessionName w (sessionName # draws) =
     (if getSession w sessionName \<noteq> None then pickSessionName w draws else Some sessionName)"

text \<open>
  The result is \<open>None\<close> when the loop does not end, \<open>Some (Inl e)\<close> when
  \<^verbatim>\<open>createSession\<close> fails with \<open>e\<close>, and \<open>Some (Inr w')\<close> when the handler returns.
\<close>

definition handleConnect :: "string \<Rightarrow> string \<Rightarrow> string list \<Rightarrow> world \<Rightarrow> (string + world) option" where
  "handleConnect socket_id clientID draws w =
     (case pickSessionName w draws of
        None \<Rightarrow> None
      | Some sessionName \<Rightarrow>
          Some (case createSession sessionName socket_id clientID w of
                  Inl e \<Rightarrow> Inl e
                | Inr w1 \<Rightarrow> Inr (joinSessionAsHost socket_id sessionName w1)))"

definition handleUpdateGameSettingsPreset ::
  "string \<Rightarrow> string \<Rightarrow> TriviaGameSettingsPreset \<Rightarrow> world \<Rightarrow> world" where
  "handleUpdateGameSettingsPreset socket_id sessionName gameSettingsPreset w =
     (case getSession w sessionName of
        None \<Rightarrow> w
      | Some session \<Rightarrow>
          if state session \<noteq> Lobby then w
          else if socket_id \<noteq> creatorSocketID session then w
          else
            emit (ToConnections (keys (hosts session)) [socket_id])
                 (UpdateGameSettingsPreset gameSettingsPreset)
              (putSession sessionName
                 (session\<lparr>triviaGameSettingsPreset := gameSettingsPreset\<rparr>) w))"

text \<open>
  \<open>useOpenAITTS\<close> is whether the environment variable \<^verbatim>\<open>USE_OPENAI_TTS\<close> is set.
\<close>

definition handleUpdateVoiceType :: "bool \<Rightarrow> string \<Rightarrow> string \<Rightarrow> VoiceType \<Rightarrow> world \<Rightarrow> world" where
  "handleUpdateVoiceType useOpenAITTS socket_id sessionName vt w =
     (case getSession w sessionName of
        None \<Rightarrow> w
      | Some session \<Rightarrow>
          emit (ToConnections (keys (hosts session)) []) (UpdateVoiceType vt (\<not> useOpenAITTS))
            (putSession sessionName (session\<lparr>voiceType := vt\<rparr>) w))"

text \<open>
  \<^verbatim>\<open>handleUpdateVoiceDuration\<close>. The duration is a JavaScript number, taken here as a
  real. The first case of the \<^verbatim>\<open>switch\<close> has no \<^verbatim>\<open>break\<close>, so control runs on into
  the second.

  The handler tests \<^verbatim>\<open>session.currentAnnouncement\<close> for truthiness. Undefined is
  falsy; whether a member of \<^verbatim>\<open>SessionAnnouncement\<close> is truthy depends on the
  declaration of the enum, which is not among the sources (a member of a numeric enum
  with value 0 is falsy), so it is the parameter \<open>truthy\<close>.
\<close>

definition announcementSet :: "(SessionAnnouncement \<Rightarrow> bool) \<Rightarrow> Session \<Rightarrow> bool" where
  "announcementSet truthy session =
     (case currentAnnouncement session of None \<Rightarrow> False | Some a \<Rightarrow> truthy a)"

definition handleUpdateVoiceDuration ::
  "(SessionAnnouncement \<Rightarrow> bool) \<Rightarrow> string \<Rightarrow> string \<Rightarrow> string \<Rightarrow> real \<Rightarrow> world \<Rightarrow> world" where
  "handleUpdateVoiceDuration truthy socket_id sessionName voiceLine durationSec w =
     (case getSession w sessionName of
        None \<Rightarrow> w
      | Some session \<Rightarrow>
          if socket_id \<noteq> creatorSocketID session then w
          else if voiceLine \<noteq> currentVoiceLine session then w
          else
            let durationMs = durationSec * 1000;
                w1 = (if announcementSet truthy session
                      then restartTimeout sessionName Announcement_Timeout durationMs w
                      else w)
            in (case state session of
                  ReadingCategoryNames \<Rightarrow>
                    restartTimeout sessionName ReadingClueSelection_Timeout durationMs
                      (restartTimeout sessionName ReadingCategoryName_Timeout durationMs w1)
                | ReadingClueSelection \<Rightarrow>
                    restartTimeout sessionName ReadingClueSelection_Timeout durationMs w1
                | ReadingClue \<Rightarrow>
                    restartTimeout sessionName ReadingClue_Timeout durationMs w1
                | _ \<Rightarrow> w1))"

definition handleLeaveSession :: "string \<Rightarrow> string \<Rightarrow> world \<Rightarrow> world" where
  "handleLeaveSession socket_id sessionName w =
     (case getSession w sessionName of
        None \<Rightarrow> w
      | Some session \<Rightarrow>
          let w1 = putSession sessionName (disconnectHost socket_id session) w
          in if socket_id = creatorSocketID session
             then emit (RoomExcept sessionName socket_id) CancelGame (deleteSession sessionName w1)
             else w1)"

text \<open>
  Lines 105 to 108 of \<^verbatim>\<open>handleAttemptSpectate\<close>: the connection is recorded as a host
  of the session, joined to it, and told so.
\<close>

definition joinAsSpectator :: "string \<Rightarrow> string \<Rightarrow> string \<Rightarrow> Session \<Rightarrow> world \<Rightarrow> world" where
  "joinAsSpectator socket_id sessionName clientID session w =
     emit (ToSocket socket_id)
          (Message (''Joined session: '' @ sessionName @ '' as spectator'') False)
       (joinSessionAsHost socket_id sessionName
          (putSession sessionName (connectHost socket_id clientID session) w))"

text \<open>
  \<^verbatim>\<open>handleAttemptSpectate\<close>. Its last statement calls \<^verbatim>\<open>handleLeaveSession\<close> with the
  session name that the connection carries at that moment; with no name on the
  connection there is no session to look up, and the call returns at once.
\<close>

definition handleAttemptSpectate :: "string \<Rightarrow> string \<Rightarrow> string \<Rightarrow> world \<Rightarrow> world" where
  "handleAttemptSpectate socket_id sessionName clientID w =
     (case getSession w sessionName of
        None \<Rightarrow>
          emit (ToSocket socket_id)
               (Message (''Couldn't find session a session named: '' @ sessionName) True) w
      | Some session \<Rightarrow>
          if socket_id \<in> set (keys (hosts session))
          then emit (ToSocket socket_id)
                    (Message (''Already a host in session: '' @ sessionName) True) w
          else
            let w1 = joinAsSpectator socket_id sessionName clientID session w
            in (case map_of (sessionNameOf w1) socket_id of
                  None \<Rightarrow> w1
                | Some current \<Rightarrow> handleLeaveSession socket_id current w1))"

text \<open>
  \<^verbatim>\<open>handleGenerateCustomGame\<close>. The method \<^verbatim>\<open>generateTriviaGame\<close> of \<^verbatim>\<open>Session\<close>
  is not among the sources and is a parameter: applied to the settings and the session it
  gives \<open>Inl e\<close> when it throws \<open>e\<close> and \<open>Inr session'\<close> when it completes, leaving the
  session as \<open>session'\<close>.
\<close>

definition handleGenerateCustomGame ::
  "('g \<Rightarrow> Session \<Rightarrow> string + Session) \<Rightarrow> string \<Rightarrow> string \<Rightarrow> 'g \<Rightarrow> world \<Rightarrow> world" where
  "handleGenerateCustomGame generateTriviaGame socket_id sessionName gameSettings w =
     (case getSession w sessionName of
        None \<Rightarrow> w
      | Some session \<Rightarrow>
          if state session \<noteq> Lobby then w
          else if socket_id \<noteq> creatorSocketID session then w
          else
            (case generateTriviaGame gameSettings session of
               Inl e \<Rightarrow> callback False (emitServerError e socket_id w)
             | Inr session' \<Rightarrow>
                 callback True
                   (emitTriviaRoundUpdate sessionName
                      (emit (ToSocket socket_id)
                            (Message ''Custom settings were saved successfully'' False)
                         (emit (ToConnections (keys (hosts session')) [])
                               (UpdateGameSettingsPreset Custom)
                            (putSession sessionName session' w))))))"

text \<open>
  \<^verbatim>\<open>handlePlayAgain\<close>. The method \<^verbatim>\<open>resetGame\<close> of \<^verbatim>\<open>Session\<close> is not among the
  sources and is a parameter.
\<close>

definition handlePlayAgain :: "(Session \<Rightarrow> Session) \<Rightarrow> string \<Rightarrow> string \<Rightarrow> world \<Rightarrow> world" where
  "handlePlayAgain resetGame socket_id sessionName w =
     (case getSession w sessionName of
        None \<Rightarrow> w
      | Some session \<Rightarrow>
          if state session \<noteq> GameOver then w
          else
            emitLeaderboardUpdate socket_id
              (emitTriviaRoundUpdate sessionName
                 (emitStateUpdate sessionName
                    (putSession sessionName (resetGame session) w))))"

subsection \<open>The spectate order of the specification\<close>

text \<open>
  The specification's wording of spectating, for comparison with
  \<open>handleAttemptSpectate\<close>: ``a connection that spectates a new session must first be
  detached from whatever session it was previously attached to (leave-then-join)''.
  The two rejections are those of the handler; the leave comes before the join.
\<close>

definition spectateLeaveThenJoin :: "string \<Rightarrow> string \<Rightarrow> string \<Rightarrow> world \<Rightarrow> world" where
  "spectateLeaveThenJoin socket_id sessionName clientID w =
     (case getSession w sessionName of
        None \<Rightarrow>
          emit (ToSocket socket_id)
               (Message (''Couldn't find session a session named: '' @ sessionName) True) w
      | Some session \<Rightarrow>
          if socket_id \<in> set (keys (hosts session))
          then emit (ToSocket socket_id)
                    (Message (''Already a host in session: '' @ sessionName) True) w
          else
            let w1 = (case map_of (sessionNameOf w) socket_id of
                        None \<Rightarrow> w
                      | Some current \<Rightarrow> handleLeaveSession socket_id current w)
            in (case getSession w1 sessionName of
                  None \<Rightarrow> w1
                | Some session1 \<Rightarrow> joinAsSpectator socket_id sessionName clientID session1 w1))"

subsection \<open>Sequences of connections and the registry invariant\<close>

definition liveSessions :: "world \<Rightarrow> Session list" where
  "liveSessions w = map snd (sessions w)"

definition hostsOf :: "world \<Rightarrow> string \<Rightarrow> string list option" where
  "hostsOf w sessionName =
     map_option (\<lambda>session. keys (hosts session)) (getSession w sessionName)"

text \<open>
  The registry holds one entry per name, and every session is stored under its own name.
\<close>

definition registry_ok :: "world \<Rightarrow> bool" where
  "registry_ok w =
     (distinct (keys (sessions w)) \<and> (\<forall>(k, session) \<in> set (sessions w). name session = k))"

text \<open>
  A sequence of \<^verbatim>\<open>Connect\<close> events, each with its connection, its client and the words
  drawn for it. The sequence stops at the first event whose handler does not return.
\<close>

fun connects :: "(string \<times> string \<times> string list) list \<Rightarrow> world \<Rightarrow> (string + world) option" where
  "connects [] w = Some (Inr w)"
| "connects ((socket_id, clientID, draws) # rest) w =
     (case handleConnect socket_id clientID draws w of
        None \<Rightarrow> None
      | Some (Inl e) \<Rightarrow> Some (Inl e)
      | Some (Inr w1) \<Rightarrow> connects rest w1)"

subsection \<open>Example states\<close>

text \<open>
  A session \<open>quiz\<close> created by connection \<open>s1\<close> and spectated by \<open>s2\<close>, in a given state
  and with a given announcement; the line being spoken is \<open>B\<close>.
\<close>

definition exampleSession :: "SessionState \<Rightarrow> SessionAnnouncement option \<Rightarrow> Session" where
  "exampleSession st ann =
     \<lparr>name = ''quiz'', creatorSocketID = ''s1'', state = st,
      hosts = [(''s1'', ''c1''), (''s2'', ''c2'')], triviaGameSettingsPreset = Preset 0,
      voiceType = VoiceType 0, currentVoiceLine = ''B'', currentAnnouncement = ann,
      triviaRound = None\<rparr>"

definition exampleWorld :: "SessionState \<Rightarrow> SessionAnnouncement option \<Rightarrow> world" where
  "exampleWorld st ann =
     \<lparr>sessions = [(''quiz'', exampleSession st ann)],
      sessionNameOf = [(''s1'', ''quiz''), (''s2'', ''quiz'')], effects = []\<rparr>"

text \<open>
  Two sessions: \<open>aaa\<close>, created by \<open>s1\<close> and spectated by \<open>s2\<close>, and \<open>bbb\<close>, created by
  \<open>s3\<close>.
\<close>

definition twoSessions :: world where
  "twoSessions =
     \<lparr>sessions =
        [(''aaa'', (newSession ''aaa'' ''s1'' ''c1'')\<lparr>hosts := [(''s1'', ''c1''), (''s2'', ''c2'')]\<rparr>),
         (''bbb'', newSession ''bbb'' ''s3'' ''c3'')],
      sessionNameOf = [(''s1'', ''aaa''), (''s2'', ''aaa''), (''s3'', ''bbb'')],
      effects = []\<rparr>"

definition emptyWorld :: world where
  "emptyWorld = \<lparr>sessions = [], sessionNameOf = [], effects = []\<rparr>"

text \<open>
  Two connections in a row; the first word drawn for the second is the name the first
  has taken.
\<close>

definition exampleConnects :: "(string \<times> string \<times> string list) list" where
  "exampleConnects = [(''s1'', ''c1'', [''cat'']), (''s2'', ''c2'', [''cat'', ''dog''])]"

text \<open>A generation that fails, one that succeeds, and a reset, for the examples.\<close>

definition failingGeneration :: "nat \<Rightarrow> Session \<Rightarrow> string + Session" where
  "failingGeneration gameSettings session = Inl ''generation failed''"

definition workingGeneration :: "nat \<Rightarrow> Session \<Rightarrow> string + Session" where
  "workingGeneration gameSettings session =
     Inr (session\<lparr>triviaGameSettingsPreset := Custom,
                  triviaRound := Some (TriviaRound gameSettings)\<rparr>)"

definition exampleReset :: "Session \<Rightarrow> Session" where
  "exampleReset session = session\<lparr>state := Lobby, triviaRound := Some (TriviaRound 0)\<rparr>"

section \<open>Properties of the handlers\<close>

subsection \<open>Helper facts\<close>

lemma update_absent: "map_of al k = None \<Longrightarrow> AList.update k v al = al @ [(k, v)]"
  by (induction al) (auto split: if_splits)

lemmas helper_defs =
  getSession_def putSession_def keys_def emit_def callback_def restartTimeout_def
  joinSessionAsHost_def connectHost_def disconnectHost_def deleteSession_def
  createSession_def emitServerError_def emitStateUpdate_def emitTriviaRoundUpdate_def
  emitLeaderboardUpdate_def hostsOf_def liveSessions_def

subsection \<open>Duration correction\<close>

text \<open>
  What the handler does with a duration report that passes its three checks: the
  session exists, the report comes from the creator's connection, and the line is the
  current one. The announcement timeout is restarted exactly when the session's
  announcement is truthy, and then the timeouts of the phase.
\<close>

lemma voice_duration_accepted:
  assumes "getSession w sessionName = Some session"
    and "socket_id = creatorSocketID session"
    and "voiceLine = currentVoiceLine session"
  shows "handleUpdateVoiceDuration truthy socket_id sessionName voiceLine durationSec w =
      w\<lparr>effects := effects w
          @ (if announcementSet truthy session
             then [RestartTimeout sessionName Announcement_Timeout (durationSec * 1000)]
             else [])
          @ (case state session of
               ReadingCategoryNames \<Rightarrow>
                 [RestartTimeout sessionName ReadingCategoryName_Timeout (durationSec * 1000),
                  RestartTimeout sessionName ReadingClueSelection_Timeout (durationSec * 1000)]
             | ReadingClueSelection \<Rightarrow>
                 [RestartTimeout sessionName ReadingClueSelection_Timeout (durationSec * 1000)]
             | ReadingClue \<Rightarrow>
                 [RestartTimeout sessionName ReadingClue_Timeout (durationSec * 1000)]
             | _ \<Rightarrow> [])\<rparr>"
  using assms
  by (cases "state session")
     (simp_all add: handleUpdateVoiceDuration_def Let_def restartTimeout_def)

text \<open>
  Claim C1 says that in state \<^verbatim>\<open>ReadingCategoryNames\<close> only the
  \<^verbatim>\<open>ReadingCategoryName\<close> timeout is rescheduled. The code does otherwise: the
  creator of session \<open>quiz\<close>, which is in state \<^verbatim>\<open>ReadingCategoryNames\<close> with no
  announcement, reports 2.5 seconds for the current line \<open>B\<close>, and the handler restarts
  two phase timeouts, \<^verbatim>\<open>ReadingCategoryName\<close> and then \<^verbatim>\<open>ReadingClueSelection\<close>,
  both with 2500 milliseconds.
\<close>

theorem voice_duration_restarts_two_phase_timeouts:
  "effects (handleUpdateVoiceDuration (\<lambda>a. True) ''s1'' ''quiz'' ''B'' 2.5
              (exampleWorld ReadingCategoryNames None))
   = [RestartTimeout ''quiz'' ReadingCategoryName_Timeout 2500,
      RestartTimeout ''quiz'' ReadingClueSelection_Timeout 2500]"
  by (simp add: handleUpdateVoiceDuration_def announcementSet_def getSession_def
      exampleWorld_def exampleSession_def restartTimeout_def)

text \<open>
  Claim C2: a duration report whose line is not the session's current line restarts no
  timeout and leaves the session unchanged. The whole state of the server, log included,
  is the one before the event.
\<close>

theorem stale_voice_duration_discarded:
  "getSession w sessionName = Some session \<Longrightarrow> voiceLine \<noteq> currentVoiceLine session \<Longrightarrow>
   handleUpdateVoiceDuration truthy socket_id sessionName voiceLine durationSec w = w"
  by (simp add: handleUpdateVoiceDuration_def)

theorem stale_voice_duration_discarded_witness:
  "getSession (exampleWorld ReadingClue (Some FinalClue)) ''quiz''
     = Some (exampleSession ReadingClue (Some FinalClue))
   \<and> ''A'' \<noteq> currentVoiceLine (exampleSession ReadingClue (Some FinalClue))
   \<and> handleUpdateVoiceDuration (\<lambda>a. True) ''s1'' ''quiz'' ''A'' 2.5 (exampleWorld ReadingClue (Some FinalClue))
       = exampleWorld ReadingClue (Some FinalClue)"
proof -
  have g: "getSession (exampleWorld ReadingClue (Some FinalClue)) ''quiz''
     = Some (exampleSession ReadingClue (Some FinalClue))"
    by (simp add: getSession_def exampleWorld_def)
  have l: "''A'' \<noteq> currentVoiceLine (exampleSession ReadingClue (Some FinalClue))"
    by (simp add: exampleSession_def)
  from stale_voice_duration_discarded [OF g l]
  have "handleUpdateVoiceDuration (\<lambda>a. True) ''s1'' ''quiz'' ''A'' 2.5 (exampleWorld ReadingClue (Some FinalClue))
       = exampleWorld ReadingClue (Some FinalClue)" .
  with g l show ?thesis by (intro conjI)
qed

text \<open>
  Claim C10: a duration report is honoured only when it comes from the connection that
  created the session. From any other connection, also a host of the session that
  reports the current line, no timeout is restarted and nothing changes.
\<close>

theorem voice_duration_creator_only:
  "getSession w sessionName = Some session \<Longrightarrow> socket_id \<noteq> creatorSocketID session \<Longrightarrow>
   handleUpdateVoiceDuration truthy socket_id sessionName voiceLine durationSec w = w"
  by (simp add: handleUpdateVoiceDuration_def)

theorem voice_duration_creator_only_witness:
  "getSession (exampleWorld ReadingClue (Some FinalClue)) ''quiz''
     = Some (exampleSession ReadingClue (Some FinalClue))
   \<and> ''s2'' \<noteq> creatorSocketID (exampleSession ReadingClue (Some FinalClue))
   \<and> ''s2'' \<in> set (keys (hosts (exampleSession ReadingClue (Some FinalClue))))
   \<and> currentVoiceLine (exampleSession ReadingClue (Some FinalClue)) = ''B''
   \<and> handleUpdateVoiceDuration (\<lambda>a. True) ''s2'' ''quiz'' ''B'' 2.5 (exampleWorld ReadingClue (Some FinalClue))
       = exampleWorld ReadingClue (Some FinalClue)"
proof -
  have g: "getSession (exampleWorld ReadingClue (Some FinalClue)) ''quiz''
     = Some (exampleSession ReadingClue (Some FinalClue))"
    by (simp add: getSession_def exampleWorld_def)
  have c: "''s2'' \<noteq> creatorSocketID (exampleSession ReadingClue (Some FinalClue))"
    by (simp add: exampleSession_def)
  have h: "''s2'' \<in> set (keys (hosts (exampleSession ReadingClue (Some FinalClue))))"
    by (simp add: exampleSession_def keys_def)
  have l: "currentVoiceLine (exampleSession ReadingClue (Some FinalClue)) = ''B''"
    by (simp add: exampleSession_def)
  from voice_duration_creator_only [OF g c]
  have "handleUpdateVoiceDuration (\<lambda>a. True) ''s2'' ''quiz'' ''B'' 2.5 (exampleWorld ReadingClue (Some FinalClue))
       = exampleWorld ReadingClue (Some FinalClue)" .
  with g c h l show ?thesis by (intro conjI)
qed

subsection \<open>Settings and custom games\<close>

text \<open>
  Claim C4: a settings-preset update and a custom-game generation take effect only in
  state \<^verbatim>\<open>Lobby\<close> and only for the connection that created the session. In any
  other state, or for any other connection, both handlers leave the whole state of the
  server as it was. A preset update that passes the checks stores the preset and sends
  it to the hosts of the session but for the acting connection.
\<close>

theorem preset_and_generation_guarded:
  assumes "getSession w sessionName = Some session"
  shows "(state session \<noteq> Lobby \<or> socket_id \<noteq> creatorSocketID session \<longrightarrow>
            handleUpdateGameSettingsPreset socket_id sessionName preset w = w \<and>
            handleGenerateCustomGame generateTriviaGame socket_id sessionName gameSettings w = w)
       \<and> (state session = Lobby \<and> socket_id = creatorSocketID session \<longrightarrow>
            handleUpdateGameSettingsPreset socket_id sessionName preset w =
              w\<lparr>sessions :=
                   AList.update sessionName (session\<lparr>triviaGameSettingsPreset := preset\<rparr>)
                     (sessions w),
                effects := effects w @
                   [Emit (ToConnections (keys (hosts session)) [socket_id])
                         (UpdateGameSettingsPreset preset)]\<rparr>
            \<and> (\<forall>c. receives members (ToConnections (keys (hosts session)) [socket_id]) c
                   \<longleftrightarrow> c \<in> set (keys (hosts session)) \<and> c \<noteq> socket_id))"
  using assms
  by (auto simp add: handleUpdateGameSettingsPreset_def handleGenerateCustomGame_def
      emit_def putSession_def)

theorem preset_and_generation_guarded_witness:
  "getSession (exampleWorld Lobby None) ''quiz'' = Some (exampleSession Lobby None)
   \<and> ''s2'' \<noteq> creatorSocketID (exampleSession Lobby None)
   \<and> handleUpdateGameSettingsPreset ''s2'' ''quiz'' Custom (exampleWorld Lobby None)
       = exampleWorld Lobby None
   \<and> handleGenerateCustomGame workingGeneration ''s2'' ''quiz'' 7 (exampleWorld Lobby None)
       = exampleWorld Lobby None
   \<and> state (exampleSession Lobby None) = Lobby
   \<and> ''s1'' = creatorSocketID (exampleSession Lobby None)
   \<and> hostsOf (exampleWorld Lobby None) ''quiz'' = Some [''s1'', ''s2'']
   \<and> map_option triviaGameSettingsPreset
        (getSession (handleUpdateGameSettingsPreset ''s1'' ''quiz'' (Preset 3) (exampleWorld Lobby None))
           ''quiz'') = Some (Preset 3)
   \<and> effects (handleUpdateGameSettingsPreset ''s1'' ''quiz'' (Preset 3) (exampleWorld Lobby None))
       = [Emit (ToConnections [''s1'', ''s2''] [''s1'']) (UpdateGameSettingsPreset (Preset 3))]
   \<and> receives (\<lambda>r. {}) (ToConnections [''s1'', ''s2''] [''s1'']) ''s2''
   \<and> \<not> receives (\<lambda>r. {}) (ToConnections [''s1'', ''s2''] [''s1'']) ''s1''"
proof -
  have g: "getSession (exampleWorld Lobby None) ''quiz'' = Some (exampleSession Lobby None)"
    by (simp add: getSession_def exampleWorld_def)
  have other: "''s2'' \<noteq> creatorSocketID (exampleSession Lobby None)"
    by (simp add: exampleSession_def)
  have lobby: "state (exampleSession Lobby None) = Lobby"
    by (simp add: exampleSession_def)
  have creator: "''s1'' = creatorSocketID (exampleSession Lobby None)"
    by (simp add: exampleSession_def)
  have hs: "keys (hosts (exampleSession Lobby None)) = [''s1'', ''s2'']"
    by (simp add: exampleSession_def keys_def)
  note refused =
    preset_and_generation_guarded [OF g, of "''s2''" Custom workingGeneration 7 "\<lambda>r. {}" ]
  note accepted =
    preset_and_generation_guarded [OF g, of "''s1''" "Preset 3" workingGeneration 7 "\<lambda>r. {}"]
  from refused other
  have r1: "handleUpdateGameSettingsPreset ''s2'' ''quiz'' Custom (exampleWorld Lobby None)
              = exampleWorld Lobby None"
    and r2: "handleGenerateCustomGame workingGeneration ''s2'' ''quiz'' 7 (exampleWorld Lobby None)
              = exampleWorld Lobby None"
    by blast+
  from accepted lobby creator
  have a1: "handleUpdateGameSettingsPreset ''s1'' ''quiz'' (Preset 3) (exampleWorld Lobby None) =
      (exampleWorld Lobby None)\<lparr>sessions :=
           AList.update ''quiz'' ((exampleSession Lobby None)\<lparr>triviaGameSettingsPreset := Preset 3\<rparr>)
             (sessions (exampleWorld Lobby None)),
        effects := effects (exampleWorld Lobby None) @
           [Emit (ToConnections (keys (hosts (exampleSession Lobby None))) [''s1''])
                 (UpdateGameSettingsPreset (Preset 3))]\<rparr>"
    and a2: "\<forall>c. receives (\<lambda>r. {}) (ToConnections (keys (hosts (exampleSession Lobby None))) [''s1'']) c
                   \<longleftrightarrow> c \<in> set (keys (hosts (exampleSession Lobby None))) \<and> c \<noteq> ''s1''"
    by blast+
  have h0: "hostsOf (exampleWorld Lobby None) ''quiz'' = Some [''s1'', ''s2'']"
    by (simp add: hostsOf_def g hs)
  have p: "map_option triviaGameSettingsPreset
        (getSession (handleUpdateGameSettingsPreset ''s1'' ''quiz'' (Preset 3) (exampleWorld Lobby None))
           ''quiz'') = Some (Preset 3)"
    by (simp add: a1 getSession_def update_conv')
  have e: "effects (handleUpdateGameSettingsPreset ''s1'' ''quiz'' (Preset 3) (exampleWorld Lobby None))
       = [Emit (ToConnections [''s1'', ''s2''] [''s1'']) (UpdateGameSettingsPreset (Preset 3))]"
    by (simp add: a1 hs) (simp add: exampleWorld_def)
  from a2 have d1: "receives (\<lambda>r. {}) (ToConnections [''s1'', ''s2''] [''s1'']) ''s2''"
    and d2: "\<not> receives (\<lambda>r. {}) (ToConnections [''s1'', ''s2''] [''s1'']) ''s1''"
    by (simp_all add: hs)
  from g other r1 r2 lobby creator h0 p e d1 d2 show ?thesis by (intro conjI)
qed

text \<open>
  Claim C5: when the generation of a custom game fails, the error goes to the acting
  connection as a message with the error flag, the callback is called with false, and
  the registry is as it was; when it succeeds, the \<^verbatim>\<open>Custom\<close> preset goes to all hosts
  of the session, the round that the session now holds is sent out, and the callback is
  called with true, in that order.
\<close>

theorem custom_game_generation_outcomes:
  assumes "getSession w sessionName = Some session"
    and "state session = Lobby"
    and "socket_id = creatorSocketID session"
  shows "(generateTriviaGame gameSettings session = Inl e \<longrightarrow>
            handleGenerateCustomGame generateTriviaGame socket_id sessionName gameSettings w =
              w\<lparr>effects := effects w @
                   [Emit (ToSocket socket_id) (Message e True), Callback False]\<rparr>)
       \<and> (generateTriviaGame gameSettings session = Inr session' \<longrightarrow>
            handleGenerateCustomGame generateTriviaGame socket_id sessionName gameSettings w =
              w\<lparr>sessions := AList.update sessionName session' (sessions w),
                effects := effects w @
                  [Emit (ToConnections (keys (hosts session')) []) (UpdateGameSettingsPreset Custom),
                   Emit (ToSocket socket_id)
                        (Message ''Custom settings were saved successfully'' False),
                   TriviaRoundUpdate sessionName (triviaRound session'),
                   Callback True]\<rparr>
            \<and> (\<forall>c. receives members (ToConnections (keys (hosts session')) []) c
                   \<longleftrightarrow> c \<in> set (keys (hosts session'))))"
  using assms
  by (simp add: handleGenerateCustomGame_def callback_def emitServerError_def emit_def
      emitTriviaRoundUpdate_def getSession_def putSession_def update_conv')

theorem custom_game_generation_outcomes_witness:
  "getSession (exampleWorld Lobby None) ''quiz'' = Some (exampleSession Lobby None)
   \<and> state (exampleSession Lobby None) = Lobby
   \<and> ''s1'' = creatorSocketID (exampleSession Lobby None)
   \<and> failingGeneration 7 (exampleSession Lobby None) = Inl ''generation failed''
   \<and> sessions (handleGenerateCustomGame failingGeneration ''s1'' ''quiz'' 7 (exampleWorld Lobby None))
       = sessions (exampleWorld Lobby None)
   \<and> effects (handleGenerateCustomGame failingGeneration ''s1'' ''quiz'' 7 (exampleWorld Lobby None))
       = [Emit (ToSocket ''s1'') (Message ''generation failed'' True), Callback False]
   \<and> effects (handleGenerateCustomGame workingGeneration ''s1'' ''quiz'' 7 (exampleWorld Lobby None))
       = [Emit (ToConnections [''s1'', ''s2''] []) (UpdateGameSettingsPreset Custom),
          Emit (ToSocket ''s1'') (Message ''Custom settings were saved successfully'' False),
          TriviaRoundUpdate ''quiz'' (Some (TriviaRound 7)),
          Callback True]"
proof -
  have g: "getSession (exampleWorld Lobby None) ''quiz'' = Some (exampleSession Lobby None)"
    by (simp add: getSession_def exampleWorld_def)
  have lobby: "state (exampleSession Lobby None) = Lobby"
    by (simp add: exampleSession_def)
  have creator: "''s1'' = creatorSocketID (exampleSession Lobby None)"
    by (simp add: exampleSession_def)
  have f: "failingGeneration 7 (exampleSession Lobby None) = Inl ''generation failed''"
    by (simp add: failingGeneration_def)
  have k: "workingGeneration 7 (exampleSession Lobby None) =
      Inr ((exampleSession Lobby None)\<lparr>triviaGameSettingsPreset := Custom,
                                       triviaRound := Some (TriviaRound 7)\<rparr>)"
    by (simp add: workingGeneration_def)
  note fails =
    custom_game_generation_outcomes [OF g lobby creator, of failingGeneration 7
      "''generation failed''" "exampleSession Lobby None" "\<lambda>r. {}"]
  note works =
    custom_game_generation_outcomes [OF g lobby creator, of workingGeneration 7 "''''"
      "(exampleSession Lobby None)\<lparr>triviaGameSettingsPreset := Custom,
                                   triviaRound := Some (TriviaRound 7)\<rparr>" "\<lambda>r. {}"]
  from fails f
  have a: "handleGenerateCustomGame failingGeneration ''s1'' ''quiz'' 7 (exampleWorld Lobby None) =
      (exampleWorld Lobby None)\<lparr>effects := effects (exampleWorld Lobby None) @
         [Emit (ToSocket ''s1'') (Message ''generation failed'' True), Callback False]\<rparr>"
    by blast
  from works k
  have b: "handleGenerateCustomGame workingGeneration ''s1'' ''quiz'' 7 (exampleWorld Lobby None) =
      (exampleWorld Lobby None)\<lparr>sessions := AList.update ''quiz''
          ((exampleSession Lobby None)\<lparr>triviaGameSettingsPreset := Custom,
                                       triviaRound := Some (TriviaRound 7)\<rparr>)
          (sessions (exampleWorld Lobby None)),
        effects := effects (exampleWorld Lobby None) @
          [Emit (ToConnections (keys (hosts ((exampleSession Lobby None)\<lparr>triviaGameSettingsPreset := Custom,
                                       triviaRound := Some (TriviaRound 7)\<rparr>))) [])
                (UpdateGameSettingsPreset Custom),
           Emit (ToSocket ''s1'') (Message ''Custom settings were saved successfully'' False),
           TriviaRoundUpdate ''quiz'' (triviaRound ((exampleSession Lobby None)\<lparr>triviaGameSettingsPreset := Custom,
                                       triviaRound := Some (TriviaRound 7)\<rparr>)),
           Callback True]\<rparr>"
    by blast
  have s: "sessions (handleGenerateCustomGame failingGeneration ''s1'' ''quiz'' 7 (exampleWorld Lobby None))
       = sessions (exampleWorld Lobby None)"
    by (simp add: a)
  have ea: "effects (handleGenerateCustomGame failingGeneration ''s1'' ''quiz'' 7 (exampleWorld Lobby None))
       = [Emit (ToSocket ''s1'') (Message ''generation failed'' True), Callback False]"
    by (simp add: a) (simp add: exampleWorld_def)
  have eb: "effects (handleGenerateCustomGame workingGeneration ''s1'' ''quiz'' 7 (exampleWorld Lobby None))
       = [Emit (ToConnections [''s1'', ''s2''] []) (UpdateGameSettingsPreset Custom),
          Emit (ToSocket ''s1'') (Message ''Custom settings were saved successfully'' False),
          TriviaRoundUpdate ''quiz'' (Some (TriviaRound 7)),
          Callback True]"
    by (simp add: b) (simp add: exampleWorld_def exampleSession_def keys_def)
  from g lobby creator f s ea eb show ?thesis by (intro conjI)
qed

subsection \<open>Leaving and spectating\<close>

text \<open>
  Claim C6: when the creator's connection leaves, the session is deleted from the
  registry and every other connection in the session's room is sent the cancellation
  notice; when another host leaves, it is removed from \<open>hosts\<close> and nothing else changes:
  the session stays in the registry, in the state it was in.
\<close>

theorem leave_session_creator_and_spectator:
  assumes "getSession w sessionName = Some session"
  shows "(socket_id = creatorSocketID session \<longrightarrow>
            getSession (handleLeaveSession socket_id sessionName w) sessionName = None \<and>
            sessions (handleLeaveSession socket_id sessionName w)
              = AList.delete sessionName (sessions w) \<and>
            sessionNameOf (handleLeaveSession socket_id sessionName w) = sessionNameOf w \<and>
            effects (handleLeaveSession socket_id sessionName w)
              = effects w @ [CancelTimeouts sessionName,
                             Emit (RoomExcept sessionName socket_id) CancelGame] \<and>
            (\<forall>c. receives members (RoomExcept sessionName socket_id) c
                   \<longleftrightarrow> c \<in> members sessionName \<and> c \<noteq> socket_id))
       \<and> (socket_id \<noteq> creatorSocketID session \<longrightarrow>
            handleLeaveSession socket_id sessionName w =
              w\<lparr>sessions :=
                   AList.update sessionName
                     (session\<lparr>hosts := AList.delete socket_id (hosts session)\<rparr>) (sessions w)\<rparr> \<and>
            getSession (handleLeaveSession socket_id sessionName w) sessionName
              = Some (session\<lparr>hosts := AList.delete socket_id (hosts session)\<rparr>))"
  using assms
  by (auto simp add: handleLeaveSession_def Let_def emit_def deleteSession_def putSession_def
      disconnectHost_def getSession_def delete_update_same delete_conv' update_conv')

theorem leave_session_creator_and_spectator_witness:
  "getSession (exampleWorld ClueSelection None) ''quiz'' = Some (exampleSession ClueSelection None)
   \<and> ''s1'' = creatorSocketID (exampleSession ClueSelection None)
   \<and> getSession (handleLeaveSession ''s1'' ''quiz'' (exampleWorld ClueSelection None)) ''quiz'' = None
   \<and> effects (handleLeaveSession ''s1'' ''quiz'' (exampleWorld ClueSelection None))
       = [CancelTimeouts ''quiz'', Emit (RoomExcept ''quiz'' ''s1'') CancelGame]
   \<and> receives (\<lambda>r. {''s1'', ''s2'', ''p1''}) (RoomExcept ''quiz'' ''s1'') ''s2''
   \<and> receives (\<lambda>r. {''s1'', ''s2'', ''p1''}) (RoomExcept ''quiz'' ''s1'') ''p1''
   \<and> ''s2'' \<noteq> creatorSocketID (exampleSession ClueSelection None)
   \<and> hostsOf (handleLeaveSession ''s2'' ''quiz'' (exampleWorld ClueSelection None)) ''quiz''
       = Some [''s1'']
   \<and> map_option state
        (getSession (handleLeaveSession ''s2'' ''quiz'' (exampleWorld ClueSelection None)) ''quiz'')
       = Some ClueSelection
   \<and> effects (handleLeaveSession ''s2'' ''quiz'' (exampleWorld ClueSelection None)) = []"
proof -
  let ?w = "exampleWorld ClueSelection None"
  let ?s = "exampleSession ClueSelection None"
  let ?m = "\<lambda>r::string. {''s1'', ''s2'', ''p1''}"
  have g: "getSession ?w ''quiz'' = Some ?s"
    by (simp add: getSession_def exampleWorld_def)
  have creator: "''s1'' = creatorSocketID ?s"
    by (simp add: exampleSession_def)
  have other: "''s2'' \<noteq> creatorSocketID ?s"
    by (simp add: exampleSession_def)
  note teardown = leave_session_creator_and_spectator [OF g, of "''s1''" ?m]
  note leave = leave_session_creator_and_spectator [OF g, of "''s2''" ?m]
  from teardown creator
  have t1: "getSession (handleLeaveSession ''s1'' ''quiz'' ?w) ''quiz'' = None"
    and t2: "effects (handleLeaveSession ''s1'' ''quiz'' ?w)
              = effects ?w @ [CancelTimeouts ''quiz'', Emit (RoomExcept ''quiz'' ''s1'') CancelGame]"
    and t3: "\<forall>c. receives ?m (RoomExcept ''quiz'' ''s1'') c \<longleftrightarrow> c \<in> ?m ''quiz'' \<and> c \<noteq> ''s1''"
    by blast+
  from leave other
  have l1: "handleLeaveSession ''s2'' ''quiz'' ?w =
              ?w\<lparr>sessions := AList.update ''quiz'' (?s\<lparr>hosts := AList.delete ''s2'' (hosts ?s)\<rparr>)
                                (sessions ?w)\<rparr>"
    and l2: "getSession (handleLeaveSession ''s2'' ''quiz'' ?w) ''quiz''
              = Some (?s\<lparr>hosts := AList.delete ''s2'' (hosts ?s)\<rparr>)"
    by blast+
  have e1: "effects (handleLeaveSession ''s1'' ''quiz'' ?w)
       = [CancelTimeouts ''quiz'', Emit (RoomExcept ''quiz'' ''s1'') CancelGame]"
    by (simp add: t2) (simp add: exampleWorld_def)
  from t3 have d1: "receives ?m (RoomExcept ''quiz'' ''s1'') ''s2''"
    and d2: "receives ?m (RoomExcept ''quiz'' ''s1'') ''p1''"
    by simp_all
  have h: "hostsOf (handleLeaveSession ''s2'' ''quiz'' ?w) ''quiz'' = Some [''s1'']"
    by (simp add: hostsOf_def l2) (simp add: exampleSession_def keys_def)
  have st: "map_option state (getSession (handleLeaveSession ''s2'' ''quiz'' ?w) ''quiz'')
       = Some ClueSelection"
    by (simp add: l2) (simp add: exampleSession_def)
  have e2: "effects (handleLeaveSession ''s2'' ''quiz'' ?w) = []"
    by (simp add: l1) (simp add: exampleWorld_def)
  from g creator t1 e1 d1 d2 other h st e2 show ?thesis by (intro conjI)
qed

text \<open>
  Claim C8: spectating a name that is not in the registry sends the connection a message
  with the error flag and changes neither the registry nor the session that any
  connection carries; so does spectating a session whose \<open>hosts\<close> already holds the
  connection.
\<close>

theorem spectate_rejects:
  "(getSession w sessionName = None \<longrightarrow>
      sessions (handleAttemptSpectate socket_id sessionName clientID w) = sessions w \<and>
      sessionNameOf (handleAttemptSpectate socket_id sessionName clientID w) = sessionNameOf w \<and>
      effects (handleAttemptSpectate socket_id sessionName clientID w) =
        effects w @
          [Emit (ToSocket socket_id)
                (Message (''Couldn't find session a session named: '' @ sessionName) True)])
   \<and> (getSession w sessionName = Some session \<and> socket_id \<in> set (keys (hosts session)) \<longrightarrow>
      sessions (handleAttemptSpectate socket_id sessionName clientID w) = sessions w \<and>
      sessionNameOf (handleAttemptSpectate socket_id sessionName clientID w) = sessionNameOf w \<and>
      effects (handleAttemptSpectate socket_id sessionName clientID w) =
        effects w @
          [Emit (ToSocket socket_id)
                (Message (''Already a host in session: '' @ sessionName) True)])"
  by (simp add: handleAttemptSpectate_def emit_def)

theorem spectate_rejects_witness:
  "getSession twoSessions ''zzz'' = None
   \<and> sessions (handleAttemptSpectate ''s2'' ''zzz'' ''c2'' twoSessions) = sessions twoSessions
   \<and> effects (handleAttemptSpectate ''s2'' ''zzz'' ''c2'' twoSessions)
       = [Emit (ToSocket ''s2'') (Message ''Couldn't find session a session named: zzz'' True)]
   \<and> hostsOf twoSessions ''aaa'' = Some [''s1'', ''s2'']
   \<and> sessions (handleAttemptSpectate ''s2'' ''aaa'' ''c2'' twoSessions) = sessions twoSessions
   \<and> sessionNameOf (handleAttemptSpectate ''s2'' ''aaa'' ''c2'' twoSessions)
       = sessionNameOf twoSessions
   \<and> effects (handleAttemptSpectate ''s2'' ''aaa'' ''c2'' twoSessions)
       = [Emit (ToSocket ''s2'') (Message ''Already a host in session: aaa'' True)]"
proof -
  let ?a = "(newSession ''aaa'' ''s1'' ''c1'')\<lparr>hosts := [(''s1'', ''c1''), (''s2'', ''c2'')]\<rparr>"
  have n: "getSession twoSessions ''zzz'' = None"
    by (simp add: getSession_def twoSessions_def)
  have g: "getSession twoSessions ''aaa'' = Some ?a"
    by (simp add: getSession_def twoSessions_def)
  have m: "''s2'' \<in> set (keys (hosts ?a))"
    by (simp add: keys_def)
  have e0: "effects twoSessions = []"
    by (simp add: twoSessions_def)
  note unknown = spectate_rejects [of twoSessions "''zzz''" "''s2''" "''c2''" ?a]
  note already = spectate_rejects [of twoSessions "''aaa''" "''s2''" "''c2''" ?a]
  from unknown n
  have u1: "sessions (handleAttemptSpectate ''s2'' ''zzz'' ''c2'' twoSessions) = sessions twoSessions"
    and u2: "effects (handleAttemptSpectate ''s2'' ''zzz'' ''c2'' twoSessions) =
        effects twoSessions @
          [Emit (ToSocket ''s2'') (Message (''Couldn't find session a session named: '' @ ''zzz'') True)]"
    by blast+
  from already g m
  have a1: "sessions (handleAttemptSpectate ''s2'' ''aaa'' ''c2'' twoSessions) = sessions twoSessions"
    and a2: "sessionNameOf (handleAttemptSpectate ''s2'' ''aaa'' ''c2'' twoSessions)
              = sessionNameOf twoSessions"
    and a3: "effects (handleAttemptSpectate ''s2'' ''aaa'' ''c2'' twoSessions) =
        effects twoSessions @
          [Emit (ToSocket ''s2'') (Message (''Already a host in session: '' @ ''aaa'') True)]"
    by blast+
  have h: "hostsOf twoSessions ''aaa'' = Some [''s1'', ''s2'']"
    by (simp add: hostsOf_def g keys_def)
  have u3: "effects (handleAttemptSpectate ''s2'' ''zzz'' ''c2'' twoSessions)
       = [Emit (ToSocket ''s2'') (Message ''Couldn't find session a session named: zzz'' True)]"
    by (simp add: u2 e0)
  have a4: "effects (handleAttemptSpectate ''s2'' ''aaa'' ''c2'' twoSessions)
       = [Emit (ToSocket ''s2'') (Message ''Already a host in session: aaa'' True)]"
    by (simp add: a3 e0)
  from n u1 u3 h a1 a2 a4 show ?thesis by (intro conjI)
qed

text \<open>
  Claim C3 says that a connection that spectates a new session is first detached from
  its previous session and only then joined to the new one. The code joins first and
  leaves last. Connection \<open>s2\<close>, a host of \<open>aaa\<close>, spectates \<open>bbb\<close>: once lines 105 to 108
  have run it is a host of both sessions, and the final call of \<^verbatim>\<open>handleLeaveSession\<close>
  is given the name the connection carries by then, \<open>bbb\<close>. At the end \<open>s2\<close> is still a
  host of \<open>aaa\<close> and is not a host of \<open>bbb\<close>, the session whose name it carries. With the
  leave before the join it would be a host of \<open>bbb\<close> only.
\<close>

theorem spectate_joins_then_leaves:
  "hostsOf twoSessions ''aaa'' = Some [''s1'', ''s2'']
   \<and> hostsOf twoSessions ''bbb'' = Some [''s3'']
   \<and> hostsOf (joinAsSpectator ''s2'' ''bbb'' ''c2'' (newSession ''bbb'' ''s3'' ''c3'') twoSessions)
        ''aaa'' = Some [''s1'', ''s2'']
   \<and> hostsOf (joinAsSpectator ''s2'' ''bbb'' ''c2'' (newSession ''bbb'' ''s3'' ''c3'') twoSessions)
        ''bbb'' = Some [''s3'', ''s2'']
   \<and> hostsOf (handleAttemptSpectate ''s2'' ''bbb'' ''c2'' twoSessions) ''aaa'' = Some [''s1'', ''s2'']
   \<and> hostsOf (handleAttemptSpectate ''s2'' ''bbb'' ''c2'' twoSessions) ''bbb'' = Some [''s3'']
   \<and> map_of (sessionNameOf (handleAttemptSpectate ''s2'' ''bbb'' ''c2'' twoSessions)) ''s2''
        = Some ''bbb''
   \<and> hostsOf (spectateLeaveThenJoin ''s2'' ''bbb'' ''c2'' twoSessions) ''aaa'' = Some [''s1'']
   \<and> hostsOf (spectateLeaveThenJoin ''s2'' ''bbb'' ''c2'' twoSessions) ''bbb'' = Some [''s3'', ''s2'']"
  by (simp add: handleAttemptSpectate_def spectateLeaveThenJoin_def joinAsSpectator_def
      handleLeaveSession_def Let_def twoSessions_def newSession_def helper_defs)

subsection \<open>Playing again\<close>

text \<open>
  Claim C9: \<^verbatim>\<open>PlayAgain\<close> does nothing for a session that is not in state
  \<^verbatim>\<open>GameOver\<close>. From \<^verbatim>\<open>GameOver\<close> the session is reset, and then the state update,
  the round update and the leaderboard update are sent, in that order; the first two
  carry the state and the round of the session after the reset.
\<close>

theorem play_again_only_from_game_over:
  assumes "getSession w sessionName = Some session"
  shows "(state session \<noteq> GameOver \<longrightarrow> handlePlayAgain resetGame socket_id sessionName w = w)
       \<and> (state session = GameOver \<longrightarrow>
            handlePlayAgain resetGame socket_id sessionName w =
              w\<lparr>sessions := AList.update sessionName (resetGame session) (sessions w),
                effects := effects w @
                  [StateUpdate sessionName (state (resetGame session)),
                   TriviaRoundUpdate sessionName (triviaRound (resetGame session)),
                   LeaderboardUpdate socket_id]\<rparr>)"
  using assms
  by (simp add: handlePlayAgain_def emitLeaderboardUpdate_def emitTriviaRoundUpdate_def
      emitStateUpdate_def getSession_def putSession_def update_conv')

theorem play_again_only_from_game_over_witness:
  "getSession (exampleWorld ClueSelection None) ''quiz'' = Some (exampleSession ClueSelection None)
   \<and> state (exampleSession ClueSelection None) \<noteq> GameOver
   \<and> handlePlayAgain exampleReset ''s1'' ''quiz'' (exampleWorld ClueSelection None)
       = exampleWorld ClueSelection None
   \<and> getSession (exampleWorld GameOver None) ''quiz'' = Some (exampleSession GameOver None)
   \<and> state (exampleSession GameOver None) = GameOver
   \<and> map_option state
        (getSession (handlePlayAgain exampleReset ''s1'' ''quiz'' (exampleWorld GameOver None)) ''quiz'')
       = Some Lobby
   \<and> effects (handlePlayAgain exampleReset ''s1'' ''quiz'' (exampleWorld GameOver None))
       = [StateUpdate ''quiz'' Lobby, TriviaRoundUpdate ''quiz'' (Some (TriviaRound 0)),
          LeaderboardUpdate ''s1'']"
proof -
  let ?v = "exampleWorld ClueSelection None"
  let ?w = "exampleWorld GameOver None"
  let ?s = "exampleSession GameOver None"
  have g1: "getSession ?v ''quiz'' = Some (exampleSession ClueSelection None)"
    by (simp add: getSession_def exampleWorld_def)
  have n1: "state (exampleSession ClueSelection None) \<noteq> GameOver"
    by (simp add: exampleSession_def)
  have g2: "getSession ?w ''quiz'' = Some ?s"
    by (simp add: getSession_def exampleWorld_def)
  have o2: "state ?s = GameOver"
    by (simp add: exampleSession_def)
  from play_again_only_from_game_over [OF g1, of exampleReset "''s1''"] n1
  have r1: "handlePlayAgain exampleReset ''s1'' ''quiz'' ?v = ?v"
    by blast
  from play_again_only_from_game_over [OF g2, of exampleReset "''s1''"] o2
  have r2: "handlePlayAgain exampleReset ''s1'' ''quiz'' ?w =
              ?w\<lparr>sessions := AList.update ''quiz'' (exampleReset ?s) (sessions ?w),
                effects := effects ?w @
                  [StateUpdate ''quiz'' (state (exampleReset ?s)),
                   TriviaRoundUpdate ''quiz'' (triviaRound (exampleReset ?s)),
                   LeaderboardUpdate ''s1'']\<rparr>"
    by blast
  have st: "map_option state (getSession (handlePlayAgain exampleReset ''s1'' ''quiz'' ?w) ''quiz'')
       = Some Lobby"
    by (simp add: r2 getSession_def update_conv') (simp add: exampleReset_def)
  have e: "effects (handlePlayAgain exampleReset ''s1'' ''quiz'' ?w)
       = [StateUpdate ''quiz'' Lobby, TriviaRoundUpdate ''quiz'' (Some (TriviaRound 0)),
          LeaderboardUpdate ''s1'']"
    by (simp add: r2) (simp add: exampleReset_def exampleWorld_def)
  from g1 n1 r1 g2 o2 st e show ?thesis by (intro conjI)
qed

subsection \<open>Session names\<close>

text \<open>
  The loop of \<^verbatim>\<open>handleConnect\<close> ends on the first word drawn that names no session:
  every word before it named one.
\<close>

lemma pickSessionName_absent:
  "pickSessionName w draws = Some n \<Longrightarrow> getSession w n = None \<and> n \<in> set draws"
  by (induction draws) (auto split: if_splits)

lemma pickSessionName_retries:
  "pickSessionName w draws = Some n \<Longrightarrow>
   \<exists>pre post. draws = pre @ n # post \<and> (\<forall>d \<in> set pre. getSession w d \<noteq> None)"
proof (induction draws)
  case Nil
  then show ?case by simp
next
  case (Cons d draws)
  show ?case
  proof (cases "getSession w d = None")
    case True
    with Cons.prems have "d = n" by simp
    then have "d # draws = [] @ n # draws \<and> (\<forall>x \<in> set []. getSession w x \<noteq> None)"
      by simp
    then show ?thesis by blast
  next
    case False
    with Cons.prems have "pickSessionName w draws = Some n" by simp
    from Cons.IH [OF this] obtain pre post
      where "draws = pre @ n # post" and "\<forall>x \<in> set pre. getSession w x \<noteq> None" by blast
    with False
    have "d # draws = (d # pre) @ n # post \<and> (\<forall>x \<in> set (d # pre). getSession w x \<noteq> None)"
      by simp
    then show ?thesis by blast
  qed
qed

lemma pickSessionName_ends:
  "d \<in> set draws \<Longrightarrow> getSession w d = None \<Longrightarrow> \<exists>n. pickSessionName w draws = Some n"
  by (induction draws) auto

text \<open>
  A connect that returns has stored one new session, in \<^verbatim>\<open>Lobby\<close>, under a name that
  was drawn and that no session had; \<^verbatim>\<open>createSession\<close> has not failed.
\<close>

lemma handleConnect_step:
  assumes "handleConnect socket_id clientID draws w = Some r"
  shows "\<exists>n. n \<in> set draws \<and> getSession w n = None \<and>
             r = Inr (w\<lparr>sessions := sessions w @ [(n, newSession n socket_id clientID)],
                        sessionNameOf := AList.update socket_id n (sessionNameOf w)\<rparr>)"
proof -
  from assms obtain n where p: "pickSessionName w draws = Some n"
    by (auto simp add: handleConnect_def split: option.splits)
  then have a: "getSession w n = None" and m: "n \<in> set draws"
    using pickSessionName_absent by blast+
  from a have "AList.update n (newSession n socket_id clientID) (sessions w)
                 = sessions w @ [(n, newSession n socket_id clientID)]"
    by (simp add: getSession_def update_absent)
  with assms p a
  have "r = Inr (w\<lparr>sessions := sessions w @ [(n, newSession n socket_id clientID)],
                   sessionNameOf := AList.update socket_id n (sessionNameOf w)\<rparr>)"
    by (auto simp add: handleConnect_def createSession_def putSession_def joinSessionAsHost_def)
  with a m show ?thesis by blast
qed

text \<open>
  The handler returns as soon as one of the words drawn names no session.
\<close>

lemma handleConnect_returns:
  assumes "d \<in> set draws" and "getSession w d = None"
  shows "\<exists>w'. handleConnect socket_id clientID draws w = Some (Inr w')"
proof -
  from pickSessionName_ends [OF assms] obtain n where p: "pickSessionName w draws = Some n" ..
  then have "getSession w n = None" using pickSessionName_absent by blast
  with p show ?thesis by (simp add: handleConnect_def createSession_def)
qed

lemma handleConnect_keeps:
  assumes "registry_ok w" and "handleConnect socket_id clientID draws w = Some r"
  shows "\<exists>w'. r = Inr w' \<and> registry_ok w' \<and> length (sessions w') = Suc (length (sessions w))
            \<and> (\<forall>n session. getSession w n = Some session \<longrightarrow> getSession w' n = Some session)"
proof -
  from handleConnect_step [OF assms(2)] obtain n where a: "getSession w n = None"
    and r: "r = Inr (w\<lparr>sessions := sessions w @ [(n, newSession n socket_id clientID)],
                       sessionNameOf := AList.update socket_id n (sessionNameOf w)\<rparr>)"
    by blast
  let ?w' = "w\<lparr>sessions := sessions w @ [(n, newSession n socket_id clientID)],
               sessionNameOf := AList.update socket_id n (sessionNameOf w)\<rparr>"
  from a have "n \<notin> set (keys (sessions w))"
    by (simp add: getSession_def keys_def map_of_eq_None_iff)
  with assms(1) have "registry_ok ?w'"
    by (auto simp add: registry_ok_def keys_def newSession_def)
  moreover have "length (sessions ?w') = Suc (length (sessions w))" by simp
  moreover
  have "\<forall>m session. getSession w m = Some session \<longrightarrow> getSession ?w' m = Some session"
    by (auto simp add: getSession_def map_add_Some_iff)
  ultimately show ?thesis using r by blast
qed

lemma set_update_subset: "set (AList.update k v al) \<subseteq> insert (k, v) (set al)"
  by (induction al) auto

text \<open>
  Leaving keeps the registry well formed, whoever leaves.
\<close>

lemma handleLeaveSession_keeps:
  assumes "registry_ok w"
  shows "registry_ok (handleLeaveSession socket_id sessionName w)"
proof (cases "getSession w sessionName")
  case None
  with assms show ?thesis by (simp add: handleLeaveSession_def)
next
  case (Some session)
  let ?s = "disconnectHost socket_id session"
  from Some have mem: "(sessionName, session) \<in> set (sessions w)"
    by (simp add: getSession_def map_of_SomeD)
  with assms have nm: "name ?s = sessionName"
    by (auto simp add: registry_ok_def disconnectHost_def)
  from assms have d: "distinct (map fst (sessions w))"
    by (simp add: registry_ok_def keys_def)
  from assms have all: "\<forall>p \<in> set (sessions w). name (snd p) = fst p"
    by (auto simp add: registry_ok_def)
  have upd: "registry_ok (putSession sessionName ?s w)"
  proof -
    have "distinct (map fst (AList.update sessionName ?s (sessions w)))"
      using d by (rule distinct_update)
    moreover have "\<forall>p \<in> set (AList.update sessionName ?s (sessions w)). name (snd p) = fst p"
    proof
      fix p assume "p \<in> set (AList.update sessionName ?s (sessions w))"
      then have "p = (sessionName, ?s) \<or> p \<in> set (sessions w)"
        using set_update_subset [of sessionName ?s "sessions w"] by auto
      with nm all show "name (snd p) = fst p" by auto
    qed
    ultimately show ?thesis by (auto simp add: registry_ok_def putSession_def keys_def)
  qed
  have del: "registry_ok (deleteSession sessionName v)" if "registry_ok v" for v
  proof -
    from that have "distinct (map fst (AList.delete sessionName (sessions v)))"
      by (simp add: registry_ok_def keys_def distinct_delete)
    moreover from that
    have "\<forall>p \<in> set (AList.delete sessionName (sessions v)). name (snd p) = fst p"
      by (auto simp add: registry_ok_def AList.delete_eq)
    ultimately show ?thesis by (auto simp add: registry_ok_def deleteSession_def keys_def)
  qed
  have em: "registry_ok (emit t m v) = registry_ok v" for t m v
    by (simp add: registry_ok_def emit_def)
  show ?thesis
  proof (cases "socket_id = creatorSocketID session")
    case True
    with Some have "handleLeaveSession socket_id sessionName w =
        emit (RoomExcept sessionName socket_id) CancelGame
          (deleteSession sessionName (putSession sessionName ?s w))"
      by (simp add: handleLeaveSession_def Let_def)
    with del [OF upd] show ?thesis by (simp only: em)
  next
    case False
    with Some have "handleLeaveSession socket_id sessionName w = putSession sessionName ?s w"
      by (simp add: handleLeaveSession_def Let_def)
    with upd show ?thesis by (simp only:)
  qed
qed

lemma registry_ok_names:
  assumes "registry_ok w"
  shows "distinct (map name (liveSessions w))"
proof -
  have names: "map name (liveSessions w) = map (\<lambda>p. name (snd p)) (sessions w)"
    by (simp add: liveSessions_def comp_def)
  have eq: "map (\<lambda>p. name (snd p)) (sessions w) = map fst (sessions w)"
    using assms by (auto simp add: registry_ok_def)
  have d: "distinct (map fst (sessions w))"
    using assms by (simp add: registry_ok_def keys_def)
  show ?thesis unfolding names eq by (rule d)
qed

text \<open>
  Claim C7: for every sequence of session creations, no two live sessions share a name.
  Whatever words are drawn, every connect that returns has created its session
  (\<^verbatim>\<open>createSession\<close> never fails, because the loop has gone round until the name was
  absent), every session that was live before is still there as it was, there is one
  more live session per connect, and the names of the live sessions are pairwise
  different.
\<close>

theorem session_names_unique:
  assumes "registry_ok w" and "connects reqs w = Some r"
  shows "\<exists>w'. r = Inr w' \<and> registry_ok w' \<and> distinct (map name (liveSessions w'))
            \<and> length (liveSessions w') = length (liveSessions w) + length reqs
            \<and> (\<forall>n session. getSession w n = Some session \<longrightarrow> getSession w' n = Some session)"
  using assms
proof (induction reqs arbitrary: w)
  case Nil
  then show ?case using registry_ok_names [of w] by auto
next
  case (Cons req reqs)
  obtain socket_id clientID draws where req: "req = (socket_id, clientID, draws)"
    by (cases req) auto
  from Cons.prems(2) req obtain r1 where h: "handleConnect socket_id clientID draws w = Some r1"
    by (auto split: option.splits)
  from handleConnect_keeps [OF Cons.prems(1) h] obtain w1 where r1: "r1 = Inr w1"
    and ok1: "registry_ok w1" and len1: "length (sessions w1) = Suc (length (sessions w))"
    and keep1: "\<forall>n session. getSession w n = Some session \<longrightarrow> getSession w1 n = Some session"
    by blast
  from Cons.prems(2) req h r1 have "connects reqs w1 = Some r" by simp
  from Cons.IH [OF ok1 this] obtain w' where "r = Inr w'" "registry_ok w'"
    "distinct (map name (liveSessions w'))"
    "length (liveSessions w') = length (liveSessions w1) + length reqs"
    "\<forall>n session. getSession w1 n = Some session \<longrightarrow> getSession w' n = Some session"
    by blast
  with len1 keep1 show ?case by (auto simp add: liveSessions_def)
qed

theorem session_names_unique_witness:
  "registry_ok emptyWorld
   \<and> (\<exists>w'. connects exampleConnects emptyWorld = Some (Inr w')
          \<and> map name (liveSessions w') = [''cat'', ''dog'']
          \<and> distinct (map name (liveSessions w'))
          \<and> length (liveSessions w') = 2)"
proof -
  have ok: "registry_ok emptyWorld"
    by (simp add: registry_ok_def emptyWorld_def keys_def)
  have run: "\<exists>w'. connects exampleConnects emptyWorld = Some (Inr w')
                 \<and> map name (liveSessions w') = [''cat'', ''dog'']"
    by (simp add: exampleConnects_def emptyWorld_def handleConnect_def createSession_def
        newSession_def helper_defs)
  then obtain w1 where c: "connects exampleConnects emptyWorld = Some (Inr w1)"
    and n: "map name (liveSessions w1) = [''cat'', ''dog'']" by (elim exE conjE)
  from session_names_unique [OF ok c] obtain w' where "Inr w1 = (Inr w' :: string + world)"
    and "distinct (map name (liveSessions w'))"
    and "length (liveSessions w') = length (liveSessions emptyWorld) + length exampleConnects"
    by (elim exE conjE)
  then have "distinct (map name (liveSessions w1))" and "length (liveSessions w1) = 2"
    by (simp_all add: liveSessions_def emptyWorld_def exampleConnects_def)
  with c n have "connects exampleConnects emptyWorld = Some (Inr w1)
          \<and> map name (liveSessions w1) = [''cat'', ''dog'']
          \<and> distinct (map name (liveSessions w1))
          \<and> length (liveSessions w1) = 2" by (intro conjI)
  then have "\<exists>w'. connects exampleConnects emptyWorld = Some (Inr w')
          \<and> map name (liveSessions w') = [''cat'', ''dog'']
          \<and> distinct (map name (liveSessions w'))
          \<and> length (liveSessions w') = 2" ..
  with ok show ?thesis by (intro conjI)
qed

end
